theory Spec2Isabelle
  imports Complex_Main "HOL-Library.AList"
begin

section \<open>Data model of \<open>frontend-next/app/page.tsx\<close>\<close>

text \<open>
  The page component keeps all of its state in \<open>useState\<close> cells and changes it only inside
  named handlers. The handlers are modelled as functions from the state record to the state
  record; every \<open>fetchJson\<close> call takes its outcome as a parameter (\<open>Inl msg\<close> when the call
  throws an error with that message, \<open>Inr data\<close> when it returns a body) and is recorded in
  the ghost field \<open>requests\<close>.

  JavaScript numbers that hold counts, offsets and row ids are modelled as \<open>int\<close>.
  A JavaScript object is an association list in property order with distinct keys; a
  \<open>Map\<close> is an association list in insertion order; a \<open>Set\<close> is a duplicate-free list in
  insertion order. A field that may be absent (\<open>undefined\<close> or \<open>null\<close>) is an \<open>option\<close>.
\<close>

datatype jsval = JNull | JBool bool | JNum int | JStr string | JComposite string

type_synonym row = "(string \<times> jsval) list"
type_synonym schema = "(string \<times> string) list"

record LoadResponse =
  l_dataset_id :: "string option"
  l_session :: "string option"
  l_columns :: "schema option"
  l_row_count :: "int option"
  l_preview :: "row list option"

record updated_cell =
  row_id :: int
  column :: string
  old_value :: "string option"
  new_value :: "string option"

record NLExprResponse =
  n_code :: "string option"
  n_preview :: "row list option"
  n_total_count :: "int option"
  n_updated_cells :: "updated_cell list option"
  n_undo_count :: "int option"
  n_error :: "string option"

record UndoResponse =
  u_success :: bool
  u_dataset_id :: "string option"
  u_session :: "string option"
  u_columns :: "schema option"
  u_row_count :: "int option"
  u_preview :: "row list option"
  u_message :: "string option"
  u_undo_count :: "int option"

record PageResponse =
  p_rows :: "row list option"
  p_total :: "int option"

datatype role = User | Assistant

datatype kind = KCode | KText | KError | KPreview | KUpdate

record message =
  m_role :: role
  m_text :: string
  m_kind :: "kind option"
  m_previewData :: "row list option"
  m_totalCount :: "int option"
  m_activeCode :: "string option"
  m_updatedCount :: "int option"

text \<open>The bodies handed to \<open>fetchJson\<close>, one constructor per endpoint.\<close>

datatype request =
    LoadReq string
  | OpenReq string
  | NLQReq string string
  | PageReq string int int "string option"
  | UndoReq string string

text \<open>
  The \<open>useState\<close> cells of \<open>Page\<close>, followed by the two things outside the component that the
  handlers touch: the \<open>localStorage\<close> slot \<open>dataset_id\<close> and the trace of network requests.
\<close>

record client =
  s3Path :: string
  datasetId :: "string option"
  session :: "string option"
  columns :: schema
  rowCount :: int
  question :: string
  code :: string
  preview :: "row list"
  offset :: int
  limit :: int
  activeCode :: "string option"
  loading :: bool
  paging :: bool
  error :: "string option"
  messages :: "message list"
  showLoadModal :: bool
  highlightedCells :: "(string \<times> string) list"
  highlightStack :: "string list list"
  filteredTotalCount :: int
  rawPreview :: "row list"
  updatedRowIds :: "int list"
  lastUpdatedColumn :: "string option"
  undoCount :: int
  storedDatasetId :: "string option"
  requests :: "request list"

definition DEFAULT_PAGE_SIZE :: int where
  "DEFAULT_PAGE_SIZE = 500"

definition init_client :: client where
  "init_client =
     \<lparr> s3Path = ''s3://training-data-kg/100mb.xlsx'', datasetId = None, session = None,
       columns = [], rowCount = 0, question = [], code = ''--'', preview = [], offset = 0,
       limit = DEFAULT_PAGE_SIZE, activeCode = None, loading = False, paging = False,
       error = None, messages = [], showLoadModal = False, highlightedCells = [],
       highlightStack = [], filteredTotalCount = 0, rawPreview = [], updatedRowIds = [],
       lastUpdatedColumn = None, undoCount = 0, storedDatasetId = None, requests = [] \<rparr>"

subsection \<open>JavaScript truthiness and defaults\<close>

text \<open>A string is falsy when it is absent or empty; a number when it is absent or zero.\<close>

definition truthy_str :: "string option \<Rightarrow> bool" where
  "truthy_str s = (case s of None \<Rightarrow> False | Some t \<Rightarrow> t \<noteq> [])"

definition str_or :: "string option \<Rightarrow> string \<Rightarrow> string" where
  "str_or s d = (case s of None \<Rightarrow> d | Some t \<Rightarrow> if t \<noteq> [] then t else d)"

definition str_or_null :: "string option \<Rightarrow> string option" where
  "str_or_null s = (if truthy_str s then s else None)"

definition num_or :: "int option \<Rightarrow> int \<Rightarrow> int" where
  "num_or n d = (case n of None \<Rightarrow> d | Some k \<Rightarrow> if k \<noteq> 0 then k else d)"

definition list_or_empty :: "'a list option \<Rightarrow> 'a list" where
  "list_or_empty xs = (case xs of None \<Rightarrow> [] | Some ys \<Rightarrow> ys)"

text \<open>
  \<open>Math.ceil(a / b)\<close> and \<open>Math.floor(a / b)\<close> on integral operands with \<open>b > 0\<close>. The
  double-precision quotient rounds to the same integer as the exact one for operands below
  \<open>2^53\<close>, which row counts and offsets are.
\<close>

definition js_ceil_div :: "int \<Rightarrow> int \<Rightarrow> int" where
  "js_ceil_div a b = - ((- a) div b)"

definition js_floor_div :: "int \<Rightarrow> int \<Rightarrow> int" where
  "js_floor_div a b = a div b"

text \<open>\<open>Set.prototype.add\<close>: a new element goes to the end, a present one changes nothing.\<close>

definition set_add :: "'a \<Rightarrow> 'a list \<Rightarrow> 'a list" where
  "set_add x xs = (if x \<in> set xs then xs else xs @ [x])"

subsection \<open>Number formatting and parsing used by the highlight keys\<close>

text \<open>
  The template literal \<open>`${cell.row_id}-${cell.column}`\<close> prints an integral row id in
  decimal, with a leading minus sign when it is negative.
\<close>

fun string_of_nat :: "nat \<Rightarrow> string" where
  "string_of_nat n =
     (if n < 10 then [''0123456789'' ! n]
      else string_of_nat (n div 10) @ [''0123456789'' ! (n mod 10)])"

declare string_of_nat.simps [simp del]

definition string_of_int :: "int \<Rightarrow> string" where
  "string_of_int i = (if i < 0 then CHR ''-'' # string_of_nat (nat (- i)) else string_of_nat (nat i))"

definition is_digit :: "char \<Rightarrow> bool" where
  "is_digit c = (c \<in> set ''0123456789'')"

definition digit_val :: "char \<Rightarrow> int" where
  "digit_val c = int (length (takeWhile (\<lambda>d. d \<noteq> c) ''0123456789''))"

definition is_space :: "char \<Rightarrow> bool" where
  "is_space c = (c \<in> {CHR '' '', CHR 0x09, CHR 0x0A, CHR 0x0B, CHR 0x0C, CHR 0x0D})"

text \<open>
  \<open>parseInt(s, 10)\<close>: leading white space is skipped, a sign is read, then the longest run of
  decimal digits; \<open>None\<close> is \<open>NaN\<close> (no digit at that place).
\<close>

definition parse_digits :: "string \<Rightarrow> int option" where
  "parse_digits s =
     (let ds = takeWhile is_digit s
      in if ds = [] then None else Some (foldl (\<lambda>acc c. acc * 10 + digit_val c) 0 ds))"

definition parseInt10 :: "string \<Rightarrow> int option" where
  "parseInt10 s =
     (case dropWhile is_space s of
        [] \<Rightarrow> None
      | c # cs \<Rightarrow>
          if c = CHR ''-'' then map_option uminus (parse_digits cs)
          else if c = CHR ''+'' then parse_digits cs
          else parse_digits (c # cs))"

text \<open>\<open>key.split("-")[0]\<close>: the part of the key before its first dash.\<close>

definition split_dash_first :: "string \<Rightarrow> string" where
  "split_dash_first s = takeWhile (\<lambda>c. c \<noteq> CHR ''-'') s"

definition cell_key :: "updated_cell \<Rightarrow> string" where
  "cell_key cell = string_of_int (row_id cell) @ ''-'' @ column cell"

subsection \<open>Pure helpers of the component\<close>

definition stripRowId :: "row list \<Rightarrow> row list" where
  "stripRowId rows = map (\<lambda>r. AList.delete ''__row_id'' r) rows"

definition stripColumns :: "schema \<Rightarrow> schema" where
  "stripColumns cols = AList.delete ''__row_id'' cols"

definition colors :: "string list" where
  "colors =
     [''rgba(255, 182, 193, 0.6)'', ''rgba(173, 216, 230, 0.6)'', ''rgba(144, 238, 144, 0.6)'',
      ''rgba(255, 255, 224, 0.6)'', ''rgba(230, 230, 250, 0.6)'', ''rgba(255, 218, 185, 0.6)'',
      ''rgba(175, 238, 238, 0.6)'', ''rgba(255, 160, 122, 0.6)'']"

text \<open>
  \<open>Math.random()\<close> is modelled by a natural number supplied from outside; the index
  \<open>Math.floor(Math.random() * colors.length)\<close> is its residue, so every palette entry can
  be drawn and no other value can.
\<close>

definition getRandomHighlightColor :: "nat \<Rightarrow> string" where
  "getRandomHighlightColor rnd = colors ! (rnd mod length colors)"

text \<open>The total shown in the header and used by the Next button: \<open>rowCount || preview.length\<close>.\<close>

definition displayedTotal :: "client \<Rightarrow> int" where
  "displayedTotal st = (if rowCount st \<noteq> 0 then rowCount st else int (length (preview st)))"

definition totalPages :: "client \<Rightarrow> int" where
  "totalPages st =
     max 1 (js_ceil_div
        (if rowCount st \<noteq> 0 then rowCount st
         else if length (preview st) \<noteq> 0 then int (length (preview st)) else 1)
        (limit st))"

definition currentPage :: "client \<Rightarrow> int" where
  "currentPage st = js_floor_div (offset st) (limit st) + 1"

definition prevDisabled :: "client \<Rightarrow> bool" where
  "prevDisabled st = (paging st \<or> offset st = 0)"

definition nextDisabled :: "client \<Rightarrow> bool" where
  "nextDisabled st =
     (paging st \<or> offset st + limit st \<ge>
        (if rowCount st \<noteq> 0 then rowCount st else int (length (preview st))))"

subsection \<open>The window fetcher\<close>

text \<open>
  A handler is a closure created by one render: the state variables it reads are the values
  of that render (\<open>env\<close>), while its \<open>set...\<close> calls act on the state being built (\<open>st\<close>).
  A handler invoked from a control has \<open>env = st\<close>; \<open>fetchPage\<close> called from inside another
  handler still reads the render that handler was created in.

  \<open>codeOverride\<close> has three cases: \<open>None\<close> is \<open>undefined\<close> (argument not passed),
  \<open>Some None\<close> is \<open>null\<close>, \<open>Some (Some c)\<close> is a string.
\<close>

definition fetchPage ::
  "client \<Rightarrow> int \<Rightarrow> int option \<Rightarrow> string option \<Rightarrow> string option option \<Rightarrow>
   (string + PageResponse) \<Rightarrow> client \<Rightarrow> client" where
  "fetchPage env newOffset newLimit explicitSession codeOverride resp st =
     (let activeSession = (if truthy_str explicitSession then explicitSession else session env)
      in case activeSession of
           None \<Rightarrow> st\<lparr>error := Some ''Load a dataset first''\<rparr>
         | Some sess \<Rightarrow>
             if sess = [] then st\<lparr>error := Some ''Load a dataset first''\<rparr>
             else
               let effectiveLimit = (case newLimit of None \<Rightarrow> limit env | Some l \<Rightarrow> l);
                   st1 = st\<lparr>paging := True, error := None\<rparr>;
                   codeToUse = (case codeOverride of None \<Rightarrow> activeCode env | Some c \<Rightarrow> c);
                   st2 = st1\<lparr>requests := requests st1 @
                           [PageReq sess newOffset effectiveLimit (str_or_null codeToUse)]\<rparr>;
                   st3 = (case resp of
                            Inl msg \<Rightarrow> st2\<lparr>error := Some msg\<rparr>
                          | Inr data \<Rightarrow>
                              let a = st2\<lparr>rawPreview := list_or_empty (p_rows data),
                                          preview := stripRowId (list_or_empty (p_rows data)),
                                          rowCount := num_or (p_total data) (rowCount env),
                                          offset := newOffset\<rparr>;
                                  b = (case codeOverride of
                                         None \<Rightarrow> a
                                       | Some c \<Rightarrow> a\<lparr>activeCode := str_or_null c\<rparr>)
                              in (case newLimit of None \<Rightarrow> b | Some l \<Rightarrow> b\<lparr>limit := l\<rparr>))
               in st3\<lparr>paging := False\<rparr>)"

text \<open>The Prev and Next buttons.\<close>

definition prevClick :: "(string + PageResponse) \<Rightarrow> client \<Rightarrow> client" where
  "prevClick resp st = fetchPage st (max 0 (offset st - limit st)) None None None resp st"

definition nextClick :: "(string + PageResponse) \<Rightarrow> client \<Rightarrow> client" where
  "nextClick resp st = fetchPage st (offset st + limit st) None None None resp st"

subsection \<open>Overlay controls\<close>

definition handleShowAllInTable :: "string option \<Rightarrow> (string + PageResponse) \<Rightarrow> client \<Rightarrow> client" where
  "handleShowAllInTable c resp st =
     (if truthy_str (session st)
      then fetchPage st 0 (Some (limit st)) (session st) (Some c) resp (st\<lparr>activeCode := c\<rparr>)
      else st)"

definition handleShowAllData :: "(string + PageResponse) \<Rightarrow> client \<Rightarrow> client" where
  "handleShowAllData resp st =
     (if truthy_str (session st)
      then fetchPage st 0 (Some (limit st)) (session st) (Some None) resp (st\<lparr>activeCode := None\<rparr>)
      else st)"

definition handleViewUpdatedRows :: "(string + PageResponse) \<Rightarrow> client \<Rightarrow> client" where
  "handleViewUpdatedRows resp st =
     (if truthy_str (session st)
      then fetchPage st 0 (Some (limit st)) (session st) (Some None) resp (st\<lparr>activeCode := None\<rparr>)
      else st)"

definition handleClearHighlights :: "client \<Rightarrow> client" where
  "handleClearHighlights st = st\<lparr>highlightedCells := [], updatedRowIds := [], highlightStack := []\<rparr>"

subsection \<open>Undo\<close>

text \<open>\<open>lastOperationKeys.forEach((key) => newHighlightedCells.delete(key))\<close>\<close>

definition delete_keys :: "string list \<Rightarrow> (string \<times> string) list \<Rightarrow> (string \<times> string) list" where
  "delete_keys ks m = fold (\<lambda>key acc. AList.delete key acc) ks m"

text \<open>The row ids rebuilt from the operations that stay on the stack.\<close>

definition rebuild_row_ids :: "string list list \<Rightarrow> int list" where
  "rebuild_row_ids stack =
     fold (\<lambda>opKeys acc.
             fold (\<lambda>key acc'. case parseInt10 (split_dash_first key) of
                                 None \<Rightarrow> acc'
                               | Some rowId \<Rightarrow> set_add rowId acc') opKeys acc)
          stack []"

text \<open>
  \<open>undo_success\<close> is the branch \<open>if (data.success) { ... }\<close> of \<open>handleUndo\<close>. The stack and
  the map are read from the render the handler was created in, as the source does with
  \<open>[...highlightStack]\<close> and \<open>new Map(highlightedCells)\<close>.
\<close>

definition undo_success :: "client \<Rightarrow> UndoResponse \<Rightarrow> (string + PageResponse) \<Rightarrow> client \<Rightarrow> client" where
  "undo_success env data pageResp st =
     (let currentStack = highlightStack env;
          a = (if length currentStack > 0
               then
                 let lastOperationKeys = last currentStack;
                     newStack = butlast currentStack;
                     newHighlightedCells = delete_keys lastOperationKeys (highlightedCells env);
                     newRowIds = rebuild_row_ids newStack
                 in st\<lparr>highlightStack := newStack,
                        highlightedCells := newHighlightedCells,
                        updatedRowIds := newRowIds\<rparr>
               else st);
          b = a\<lparr>session := u_session data,
                columns := stripColumns (list_or_empty (u_columns data)),
                rowCount := num_or (u_row_count data) 0,
                rawPreview := list_or_empty (u_preview data),
                preview := stripRowId (list_or_empty (u_preview data)),
                undoCount := num_or (u_undo_count data) 0\<rparr>;
          c = b\<lparr>messages := messages b @
                  [\<lparr>m_role = Assistant,
                    m_text = str_or (u_message data) ''Changes reverted successfully.'',
                    m_kind = Some KText, m_previewData = None, m_totalCount = None,
                    m_activeCode = None, m_updatedCount = None\<rparr>]\<rparr>
      in if truthy_str (u_session data)
         then fetchPage env 0 (Some (limit env)) (u_session data) (Some None) pageResp c
         else c)"

definition handleUndo :: "(string + UndoResponse) \<Rightarrow> (string + PageResponse) \<Rightarrow> client \<Rightarrow> client" where
  "handleUndo resp pageResp st =
     (if \<not> truthy_str (datasetId st) \<or> \<not> truthy_str (session st)
      then st\<lparr>error := Some ''No dataset loaded''\<rparr>
      else
        let st1 = st\<lparr>loading := True, error := None\<rparr>;
            st2 = st1\<lparr>requests := requests st1 @
                    [UndoReq (str_or (datasetId st) []) (str_or (session st) [])]\<rparr>;
            st3 = (case resp of
                     Inl msg \<Rightarrow> st2\<lparr>error := Some msg\<rparr>
                   | Inr data \<Rightarrow>
                       if u_success data then undo_success st data pageResp st2
                       else st2\<lparr>error := Some (str_or (u_message data) ''Undo failed'')\<rparr>)
        in st3\<lparr>loading := False\<rparr>)"

subsection \<open>Load and open\<close>

text \<open>
  \<open>loadDataset\<close> and \<open>openDataset\<close> run the same statements from \<open>setSession\<close> to the page
  fetch; \<open>establish_success\<close> is that common part. They differ in the request, in the value
  given to \<open>setDatasetId\<close>, and in the \<open>catch\<close> block, where \<open>openDataset\<close> also removes the
  stored dataset id.
\<close>

definition establish_success :: "client \<Rightarrow> LoadResponse \<Rightarrow> (string + PageResponse) \<Rightarrow> client \<Rightarrow> client" where
  "establish_success env data pageResp st =
     (let a = st\<lparr>session := l_session data,
                columns := stripColumns (list_or_empty (l_columns data)),
                rowCount := num_or (l_row_count data) 0,
                rawPreview := list_or_empty (l_preview data),
                preview := stripRowId (list_or_empty (l_preview data)),
                code := ''--'',
                activeCode := None,
                messages := [],
                offset := 0,
                limit := DEFAULT_PAGE_SIZE\<rparr>
      in if truthy_str (l_session data)
         then fetchPage env 0 (Some DEFAULT_PAGE_SIZE) (l_session data) (Some None) pageResp a
         else a)"

definition loadDataset :: "(string + LoadResponse) \<Rightarrow> (string + PageResponse) \<Rightarrow> client \<Rightarrow> client" where
  "loadDataset resp pageResp st =
     (let st1 = st\<lparr>loading := True, error := None\<rparr>;
          st2 = st1\<lparr>requests := requests st1 @ [LoadReq (s3Path st)]\<rparr>;
          st3 = (case resp of
                   Inl msg \<Rightarrow> st2\<lparr>error := Some msg\<rparr>
                 | Inr data \<Rightarrow>
                     let a = st2\<lparr>datasetId := str_or_null (l_dataset_id data)\<rparr>;
                         b = (if truthy_str (l_dataset_id data)
                              then a\<lparr>storedDatasetId := l_dataset_id data\<rparr> else a)
                     in establish_success st data pageResp b)
      in st3\<lparr>loading := False\<rparr>)"

definition openDataset :: "string \<Rightarrow> (string + LoadResponse) \<Rightarrow> (string + PageResponse) \<Rightarrow> client \<Rightarrow> client" where
  "openDataset ident resp pageResp st =
     (let st1 = st\<lparr>loading := True, error := None\<rparr>;
          st2 = st1\<lparr>requests := requests st1 @ [OpenReq ident]\<rparr>;
          st3 = (case resp of
                   Inl msg \<Rightarrow> st2\<lparr>storedDatasetId := None, error := Some msg\<rparr>
                 | Inr data \<Rightarrow>
                     let a = st2\<lparr>datasetId := Some (str_or (l_dataset_id data) ident)\<rparr>;
                         b = (if truthy_str (l_dataset_id data)
                              then a\<lparr>storedDatasetId := l_dataset_id data\<rparr> else a)
                     in establish_success st data pageResp b)
      in st3\<lparr>loading := False\<rparr>)"

subsection \<open>Natural-language transformation\<close>

definition isUpdateOperation :: "NLExprResponse \<Rightarrow> bool" where
  "isUpdateOperation data =
     (case n_updated_cells data of None \<Rightarrow> False | Some cells \<Rightarrow> length cells > 0)"

text \<open>The three collections built by the \<open>forEach\<close> over \<open>updated_cells\<close>.\<close>

definition newHighlights :: "string \<Rightarrow> updated_cell list \<Rightarrow> (string \<times> string) list" where
  "newHighlights operationColor cells =
     fold (\<lambda>cell acc. AList.update (cell_key cell) operationColor acc) cells []"

definition newUpdatedRowIds :: "updated_cell list \<Rightarrow> int list" where
  "newUpdatedRowIds cells = fold (\<lambda>cell acc. set_add (row_id cell) acc) cells []"

definition operationKeys :: "updated_cell list \<Rightarrow> string list" where
  "operationKeys cells = map cell_key cells"

text \<open>\<open>newHighlights.forEach((color, key) => merged.set(key, color))\<close>\<close>

definition merge_highlights :: "(string \<times> string) list \<Rightarrow> (string \<times> string) list \<Rightarrow> (string \<times> string) list" where
  "merge_highlights new prev = fold (\<lambda>(key, color) merged. AList.update key color merged) new prev"

text \<open>
  \<open>apply_update\<close> is the branch \<open>if (isUpdateOperation) { ... }\<close> of \<open>runNLQ\<close>, and
  \<open>nlq_success\<close> is the body of its \<open>try\<close> block after the response arrived.
\<close>

definition apply_update :: "client \<Rightarrow> nat \<Rightarrow> updated_cell list \<Rightarrow> (string + PageResponse) \<Rightarrow> client \<Rightarrow> client" where
  "apply_update env rnd cells pageResp st =
     (let operationColor = getRandomHighlightColor rnd;
          a = (case cells of [] \<Rightarrow> st | c # _ \<Rightarrow> st\<lparr>lastUpdatedColumn := Some (column c)\<rparr>);
          b = a\<lparr>updatedRowIds := fold set_add (newUpdatedRowIds cells) (updatedRowIds a)\<rparr>;
          c = (if truthy_str (session env)
               then fetchPage env 0 (Some (limit env)) (session env) (Some None) pageResp b
               else b);
          d = c\<lparr>highlightedCells :=
                  merge_highlights (newHighlights operationColor cells) (highlightedCells c)\<rparr>
      in d\<lparr>highlightStack := highlightStack d @ [operationKeys cells]\<rparr>)"

definition nlq_success :: "client \<Rightarrow> nat \<Rightarrow> NLExprResponse \<Rightarrow> (string + PageResponse) \<Rightarrow> client \<Rightarrow> client" where
  "nlq_success env rnd data pageResp st =
     (let a = (if truthy_str (n_error data) then st\<lparr>error := n_error data\<rparr> else st);
          b = a\<lparr>code := str_or (n_code data) ''--'', activeCode := str_or_null (n_code data)\<rparr>;
          c = (if isUpdateOperation data
               then apply_update env rnd (list_or_empty (n_updated_cells data)) pageResp b
               else b);
          totalCount = num_or (n_total_count data) 0;
          d = c\<lparr>filteredTotalCount := totalCount\<rparr>;
          e = d\<lparr>messages := messages d @
                  [\<lparr>m_role = User, m_text = question env, m_kind = Some KText,
                    m_previewData = None, m_totalCount = None, m_activeCode = None,
                    m_updatedCount = None\<rparr>]\<rparr>
      in if truthy_str (n_error data)
         then e\<lparr>messages := messages e @
                  [\<lparr>m_role = Assistant, m_text = str_or (n_error data) [], m_kind = Some KError,
                    m_previewData = None, m_totalCount = None, m_activeCode = None,
                    m_updatedCount = None\<rparr>]\<rparr>
         else if isUpdateOperation data
         then e\<lparr>messages := messages e @
                  [\<lparr>m_role = Assistant, m_text = str_or (n_code data) [], m_kind = Some KUpdate,
                    m_previewData = None, m_totalCount = None, m_activeCode = None,
                    m_updatedCount = Some (int (length (list_or_empty (n_updated_cells data))))\<rparr>],
                undoCount := num_or (n_undo_count data) 0\<rparr>
         else e\<lparr>messages := messages e @
                  [\<lparr>m_role = Assistant, m_text = str_or (n_code data) [], m_kind = Some KPreview,
                    m_previewData = Some (take 10 (stripRowId (list_or_empty (n_preview data)))),
                    m_totalCount = Some totalCount, m_activeCode = str_or_null (n_code data),
                    m_updatedCount = None\<rparr>]\<rparr>)"

definition runNLQ :: "nat \<Rightarrow> (string + NLExprResponse) \<Rightarrow> (string + PageResponse) \<Rightarrow> client \<Rightarrow> client" where
  "runNLQ rnd resp pageResp st =
     (if \<not> truthy_str (session st)
      then st\<lparr>error := Some ''Load a dataset first''\<rparr>
      else
        let st1 = st\<lparr>loading := True, error := None\<rparr>;
            st2 = st1\<lparr>requests := requests st1 @ [NLQReq (str_or (session st) []) (question st)]\<rparr>;
            st3 = (case resp of
                     Inl msg \<Rightarrow> st2\<lparr>error := Some msg\<rparr>
                   | Inr data \<Rightarrow> nlq_success st rnd data pageResp st2)
        in st3\<lparr>loading := False\<rparr>)"

subsection \<open>The Show All button of a transcript turn\<close>

text \<open>
  The button is part of the markup of a turn that takes the preview branch of the render
  (\<open>isPreview && m.previewData\<close>, reached when the turn is neither an update nor code) and
  has a defined, positive \<open>totalCount\<close>. Its \<open>disabled\<close> attribute compares the turn's index
  with \<open>messages.length - 1\<close>.
\<close>

definition showAllRendered :: "message \<Rightarrow> bool" where
  "showAllRendered m =
     (m_kind m \<noteq> Some KUpdate \<and> m_kind m \<noteq> Some KCode \<and>
      m_kind m = Some KPreview \<and> m_previewData m \<noteq> None \<and>
      (case m_totalCount m of None \<Rightarrow> False | Some t \<Rightarrow> t > 0))"

definition showAllDisabled :: "message list \<Rightarrow> nat \<Rightarrow> bool" where
  "showAllDisabled msgs idx = (int idx \<noteq> int (length msgs) - 1)"

subsection \<open>The client as a transition system\<close>

datatype action =
    ALoad "string + LoadResponse" "string + PageResponse"
  | AOpen string "string + LoadResponse" "string + PageResponse"
  | ARunNLQ nat "string + NLExprResponse" "string + PageResponse"
  | AUndo "string + UndoResponse" "string + PageResponse"
  | AClearHighlights
  | APrev "string + PageResponse"
  | ANext "string + PageResponse"
  | AShowAllInTable "string option" "string + PageResponse"
  | AShowAllData "string + PageResponse"
  | AViewUpdatedRows "string + PageResponse"
  | ASetQuestion string
  | ASetS3Path string
  | ASetShowLoadModal bool

fun step :: "action \<Rightarrow> client \<Rightarrow> client" where
  "step (ALoad r p) st = loadDataset r p st"
| "step (AOpen i r p) st = openDataset i r p st"
| "step (ARunNLQ rnd r p) st = runNLQ rnd r p st"
| "step (AUndo r p) st = handleUndo r p st"
| "step AClearHighlights st = handleClearHighlights st"
| "step (APrev p) st = prevClick p st"
| "step (ANext p) st = nextClick p st"
| "step (AShowAllInTable c p) st = handleShowAllInTable c p st"
| "step (AShowAllData p) st = handleShowAllData p st"
| "step (AViewUpdatedRows p) st = handleViewUpdatedRows p st"
| "step (ASetQuestion q) st = st\<lparr>question := q\<rparr>"
| "step (ASetS3Path q) st = st\<lparr>s3Path := q\<rparr>"
| "step (ASetShowLoadModal b) st = st\<lparr>showLoadModal := b\<rparr>"

text \<open>
  The states reachable from the initial render. The controls' \<open>disabled\<close> attributes are not
  taken into account, and \<open>handleClearHighlights\<close> and \<open>handleViewUpdatedRows\<close>, which no
  control of the page invokes, are included: the set is an upper bound of what a user can
  reach, which is the safe side for an invariant.
\<close>

inductive reachable :: "client \<Rightarrow> bool" where
  reach_init: "reachable init_client"
| reach_step: "reachable st \<Longrightarrow> reachable (step a st)"

text \<open>The two sides of the highlight invariant.\<close>

definition highlightKeys :: "client \<Rightarrow> string set" where
  "highlightKeys st = fst ` set (highlightedCells st)"

definition stackKeys :: "client \<Rightarrow> string set" where
  "stackKeys st = \<Union> (set ` set (highlightStack st))"

section \<open>Concrete sessions\<close>

text \<open>
  A small dataset with two rows, loaded from the initial state, then changed by two
  transformations that both touch the cell of row 5 in column \<open>age\<close>, then one undo.
\<close>

definition ex_rows :: "row list" where
  "ex_rows =
     [[(''__row_id'', JNum 5), (''name'', JStr ''ann''), (''age'', JNum 30)],
      [(''__row_id'', JNum 7), (''name'', JStr ''bob''), (''age'', JNum 40)]]"

definition ex_load_resp :: LoadResponse where
  "ex_load_resp =
     \<lparr>l_dataset_id = Some ''d1'', l_session = Some ''s1'',
      l_columns = Some [(''__row_id'', ''Int64''), (''name'', ''String''), (''age'', ''Int64'')],
      l_row_count = Some 1000, l_preview = Some ex_rows\<rparr>"

definition ex_page_resp :: PageResponse where
  "ex_page_resp = \<lparr>p_rows = Some ex_rows, p_total = Some 1000\<rparr>"

definition ex_loaded :: client where
  "ex_loaded = loadDataset (Inr ex_load_resp) (Inr ex_page_resp) init_client"

definition ex_mutation_resp :: NLExprResponse where
  "ex_mutation_resp =
     \<lparr>n_code = Some ''df.with_columns(age=pl.col.age+1)'', n_preview = None,
      n_total_count = None,
      n_updated_cells = Some
        [\<lparr>row_id = 5, column = ''age'', old_value = Some ''30'', new_value = Some ''31''\<rparr>,
         \<lparr>row_id = 7, column = ''age'', old_value = Some ''40'', new_value = Some ''41''\<rparr>],
      n_undo_count = Some 1, n_error = None\<rparr>"

definition ex_mutated :: client where
  "ex_mutated = runNLQ 0 (Inr ex_mutation_resp) (Inr ex_page_resp) ex_loaded"

definition ex_mutation_resp2 :: NLExprResponse where
  "ex_mutation_resp2 =
     \<lparr>n_code = Some ''df.with_columns(age=99)'', n_preview = None, n_total_count = None,
      n_updated_cells = Some
        [\<lparr>row_id = 5, column = ''age'', old_value = Some ''31'', new_value = Some ''99''\<rparr>],
      n_undo_count = Some 2, n_error = None\<rparr>"

definition ex_mutated_twice :: client where
  "ex_mutated_twice = runNLQ 1 (Inr ex_mutation_resp2) (Inr ex_page_resp) ex_mutated"

definition ex_undo_resp :: UndoResponse where
  "ex_undo_resp =
     \<lparr>u_success = True, u_dataset_id = Some ''d1'', u_session = Some ''s2'',
      u_columns = Some [(''__row_id'', ''Int64''), (''name'', ''String''), (''age'', ''Int64'')],
      u_row_count = Some 1000, u_preview = Some ex_rows,
      u_message = Some ''Undo successful'', u_undo_count = Some 1\<rparr>"

definition ex_undone :: client where
  "ex_undone = handleUndo (Inr ex_undo_resp) (Inr ex_page_resp) ex_mutated_twice"

text \<open>A second dataset, loaded or reopened after the first transformation.\<close>

definition ex_load_resp_other :: LoadResponse where
  "ex_load_resp_other =
     \<lparr>l_dataset_id = Some ''d2'', l_session = Some ''t1'',
      l_columns = Some [(''__row_id'', ''Int64''), (''city'', ''String''), (''age'', ''Int64'')],
      l_row_count = Some 2000,
      l_preview = Some [[(''__row_id'', JNum 5), (''city'', JStr ''oslo''), (''age'', JNum 61)]]\<rparr>"

definition ex_page_resp_other :: PageResponse where
  "ex_page_resp_other =
     \<lparr>p_rows = Some [[(''__row_id'', JNum 5), (''city'', JStr ''oslo''), (''age'', JNum 61)]],
      p_total = Some 2000\<rparr>"

definition ex_reloaded :: client where
  "ex_reloaded = loadDataset (Inr ex_load_resp_other) (Inr ex_page_resp_other) ex_mutated"

definition ex_reopened :: client where
  "ex_reopened = openDataset ''d2'' (Inr ex_load_resp_other) (Inr ex_page_resp_other) ex_mutated"

text \<open>
  A preview: a filter question answered with a sample and a count, asked right after the
  load; then the filter applied to the table with Show All; then a question that the
  server answers with an error.
\<close>

definition ex_preview_resp :: NLExprResponse where
  "ex_preview_resp =
     \<lparr>n_code = Some ''df.filter(age>35)'',
      n_preview = Some [[(''__row_id'', JNum 7), (''name'', JStr ''bob''), (''age'', JNum 40)]],
      n_total_count = Some 37, n_updated_cells = None, n_undo_count = None, n_error = None\<rparr>"

definition ex_previewed :: client where
  "ex_previewed = runNLQ 0 (Inr ex_preview_resp) (Inl []) ex_loaded"

definition ex_filtered_page :: PageResponse where
  "ex_filtered_page =
     \<lparr>p_rows = Some [[(''__row_id'', JNum 7), (''name'', JStr ''bob''), (''age'', JNum 40)]],
      p_total = Some 37\<rparr>"

definition ex_shown :: client where
  "ex_shown = handleShowAllInTable (Some ''df.filter(age>35)'') (Inr ex_filtered_page) ex_previewed"

definition ex_error_resp :: NLExprResponse where
  "ex_error_resp =
     \<lparr>n_code = Some [], n_preview = None, n_total_count = None, n_updated_cells = None,
      n_undo_count = None, n_error = Some ''Could not translate the question''\<rparr>"

definition ex_errored :: client where
  "ex_errored = runNLQ 0 (Inr ex_error_resp) (Inl []) ex_shown"

text \<open>
  The state rendered while the request of a Next click on the second page is in flight
  (\<open>setPaging(true)\<close> has run, the \<open>finally\<close> block has not), and a state in which the
  server sent rows but no row count.
\<close>

definition ex_paging :: client where
  "ex_paging = ex_loaded\<lparr>offset := 500, paging := True\<rparr>"

definition ex_uncounted :: client where
  "ex_uncounted =
     loadDataset
       (Inr \<lparr>l_dataset_id = Some ''d3'', l_session = Some ''v1'', l_columns = None,
             l_row_count = None, l_preview = Some (replicate 600 [(''x'', JNum 1)])\<rparr>)
       (Inl ''Request failed'') init_client"

definition ex_page_no_total :: PageResponse where
  "ex_page_no_total = \<lparr>p_rows = Some ex_rows, p_total = None\<rparr>"

section \<open>Derived predicates used in the statements\<close>

text \<open>
  \<open>undo_applies\<close>: the undo handler passes its guard and the server reports success.
  \<open>nlq_updates\<close>: the transformation handler passes its guard and the response is a
  mutation; the value is the list of changed cells.
\<close>

definition undo_applies :: "(string + UndoResponse) \<Rightarrow> client \<Rightarrow> bool" where
  "undo_applies resp st =
     (truthy_str (datasetId st) \<and> truthy_str (session st) \<and>
      (case resp of Inl _ \<Rightarrow> False | Inr data \<Rightarrow> u_success data))"

definition nlq_updates :: "(string + NLExprResponse) \<Rightarrow> client \<Rightarrow> updated_cell list option" where
  "nlq_updates resp st =
     (if \<not> truthy_str (session st) then None
      else case resp of
             Inl _ \<Rightarrow> None
           | Inr data \<Rightarrow> if isUpdateOperation data then n_updated_cells data else None)"

text \<open>
  \<open>undo_overlaps\<close>: the action is a successful undo that pops an operation sharing a key
  with an operation that stays on the stack.
\<close>

definition undo_overlaps :: "action \<Rightarrow> client \<Rightarrow> bool" where
  "undo_overlaps a st =
     (case a of
        AUndo resp p \<Rightarrow>
          undo_applies resp st \<and> highlightStack st \<noteq> [] \<and>
          set (last (highlightStack st)) \<inter> \<Union> (set ` set (butlast (highlightStack st))) \<noteq> {}
      | _ \<Rightarrow> False)"

section \<open>Properties\<close>

subsection \<open>Association-list facts for the highlight map\<close>

lemma delete_keys_filter:
  "delete_keys ks m = filter (\<lambda>(k, v). k \<notin> set ks) m"
  unfolding delete_keys_def
proof (induction ks arbitrary: m)
  case Nil
  show ?case by simp
next
  case (Cons k ks)
  have "filter (\<lambda>(k', v). k' \<notin> set ks) (AList.delete k m) = filter (\<lambda>(k', v). k' \<notin> set (k # ks)) m"
    by (induction m) (auto simp: AList.delete_eq)
  with Cons show ?case by simp
qed

lemma delete_keys_dom: "fst ` set (delete_keys ks m) = fst ` set m - set ks"
  by (auto simp: delete_keys_filter)

lemma merge_highlights_dom:
  "fst ` set (merge_highlights new prev) = fst ` set prev \<union> fst ` set new"
  unfolding merge_highlights_def
proof (induction new arbitrary: prev)
  case Nil
  show ?case by simp
next
  case (Cons kv new)
  obtain k c where kv: "kv = (k, c)" by (cases kv)
  show ?case using Cons[of "AList.update k c prev"] by (auto simp: kv dom_update)
qed

lemma newHighlights_dom_aux:
  "fst ` set (fold (\<lambda>cell acc. AList.update (cell_key cell) c acc) cells acc0)
     = fst ` set acc0 \<union> cell_key ` set cells"
  by (induction cells arbitrary: acc0) (auto simp: dom_update)

lemma newHighlights_dom: "fst ` set (newHighlights c cells) = set (operationKeys cells)"
  by (simp add: newHighlights_def operationKeys_def newHighlights_dom_aux)

subsection \<open>What each handler does to the highlight bookkeeping\<close>

lemma fetchPage_highlightedCells [simp]:
  "highlightedCells (fetchPage env noff nlim es co resp st) = highlightedCells st"
  by (simp add: fetchPage_def Let_def split: option.splits sum.splits)

lemma fetchPage_highlightStack [simp]:
  "highlightStack (fetchPage env noff nlim es co resp st) = highlightStack st"
  by (simp add: fetchPage_def Let_def split: option.splits sum.splits)

lemma fetchPage_messages [simp]:
  "messages (fetchPage env noff nlim es co resp st) = messages st"
  by (simp add: fetchPage_def Let_def split: option.splits sum.splits)

lemma fetchPage_updatedRowIds [simp]:
  "updatedRowIds (fetchPage env noff nlim es co resp st) = updatedRowIds st"
  by (simp add: fetchPage_def Let_def split: option.splits sum.splits)

lemma handleUndo_highlightStack:
  "highlightStack (handleUndo resp p st) =
     (if undo_applies resp st then butlast (highlightStack st) else highlightStack st)"
  by (simp add: handleUndo_def undo_success_def undo_applies_def Let_def split: sum.splits)

lemma handleUndo_highlightedCells:
  "highlightedCells (handleUndo resp p st) =
     (if undo_applies resp st \<and> highlightStack st \<noteq> []
      then delete_keys (last (highlightStack st)) (highlightedCells st) else highlightedCells st)"
  by (simp add: handleUndo_def undo_success_def undo_applies_def Let_def split: sum.splits)

lemma establish_highlight [simp]:
  "highlightedCells (establish_success env d p st) = highlightedCells st"
  "highlightStack (establish_success env d p st) = highlightStack st"
  "updatedRowIds (establish_success env d p st) = updatedRowIds st"
  by (simp_all add: establish_success_def Let_def)

lemma loadDataset_highlight:
  "highlightedCells (loadDataset r p st) = highlightedCells st"
  "highlightStack (loadDataset r p st) = highlightStack st"
  "updatedRowIds (loadDataset r p st) = updatedRowIds st"
  by (simp_all add: loadDataset_def Let_def split: sum.splits)

lemma openDataset_highlight:
  "highlightedCells (openDataset i r p st) = highlightedCells st"
  "highlightStack (openDataset i r p st) = highlightStack st"
  "updatedRowIds (openDataset i r p st) = updatedRowIds st"
  by (simp_all add: openDataset_def Let_def split: sum.splits)

lemma runNLQ_highlightStack:
  "highlightStack (runNLQ rnd resp p st) =
     (case nlq_updates resp st of
        None \<Rightarrow> highlightStack st
      | Some cells \<Rightarrow> highlightStack st @ [operationKeys cells])"
  by (auto simp add: runNLQ_def nlq_success_def apply_update_def nlq_updates_def Let_def
        isUpdateOperation_def list_or_empty_def split: sum.splits option.splits list.splits)

lemma runNLQ_highlightedCells:
  "highlightedCells (runNLQ rnd resp p st) =
     (case nlq_updates resp st of
        None \<Rightarrow> highlightedCells st
      | Some cells \<Rightarrow>
          merge_highlights (newHighlights (getRandomHighlightColor rnd) cells) (highlightedCells st))"
  by (auto simp add: runNLQ_def nlq_success_def apply_update_def nlq_updates_def Let_def
        isUpdateOperation_def list_or_empty_def split: sum.splits option.splits list.splits)

lemma runNLQ_keys:
  "highlightKeys (runNLQ rnd resp p st) =
     highlightKeys st \<union> (case nlq_updates resp st of None \<Rightarrow> {} | Some cells \<Rightarrow> set (operationKeys cells))"
  "stackKeys (runNLQ rnd resp p st) =
     stackKeys st \<union> (case nlq_updates resp st of None \<Rightarrow> {} | Some cells \<Rightarrow> set (operationKeys cells))"
  by (auto simp: highlightKeys_def stackKeys_def runNLQ_highlightStack runNLQ_highlightedCells
        merge_highlights_dom newHighlights_dom split: option.splits)

lemma stackKeys_snoc:
  "highlightStack st \<noteq> [] \<Longrightarrow>
   stackKeys st = \<Union> (set ` set (butlast (highlightStack st))) \<union> set (last (highlightStack st))"
proof -
  assume "highlightStack st \<noteq> []"
  then have "highlightStack st = butlast (highlightStack st) @ [last (highlightStack st)]" by simp
  then have "set (highlightStack st) = set (butlast (highlightStack st)) \<union> {last (highlightStack st)}"
    by (metis list.simps(15) set_append empty_set)
  then show ?thesis by (simp add: stackKeys_def Un_commute)
qed

lemma handleUndo_keys:
  "highlightKeys (handleUndo resp p st) =
     (if undo_applies resp st \<and> highlightStack st \<noteq> []
      then highlightKeys st - set (last (highlightStack st)) else highlightKeys st)"
  "stackKeys (handleUndo resp p st) =
     (if undo_applies resp st \<and> highlightStack st \<noteq> []
      then \<Union> (set ` set (butlast (highlightStack st))) else stackKeys st)"
  by (auto simp: highlightKeys_def stackKeys_def handleUndo_highlightStack handleUndo_highlightedCells
        delete_keys_dom)

lemma other_keys:
  "highlightKeys (prevClick p st) = highlightKeys st" "stackKeys (prevClick p st) = stackKeys st"
  "highlightKeys (nextClick p st) = highlightKeys st" "stackKeys (nextClick p st) = stackKeys st"
  "highlightKeys (handleShowAllInTable c p st) = highlightKeys st" "stackKeys (handleShowAllInTable c p st) = stackKeys st"
  "highlightKeys (handleShowAllData p st) = highlightKeys st" "stackKeys (handleShowAllData p st) = stackKeys st"
  "highlightKeys (handleViewUpdatedRows p st) = highlightKeys st" "stackKeys (handleViewUpdatedRows p st) = stackKeys st"
  "highlightKeys (loadDataset r p st) = highlightKeys st" "stackKeys (loadDataset r p st) = stackKeys st"
  "highlightKeys (openDataset i r p st) = highlightKeys st" "stackKeys (openDataset i r p st) = stackKeys st"
  "highlightKeys (handleClearHighlights st) = {}" "stackKeys (handleClearHighlights st) = {}"
  "highlightKeys (st\<lparr>question := q\<rparr>) = highlightKeys st" "stackKeys (st\<lparr>question := q\<rparr>) = stackKeys st"
  "highlightKeys (st\<lparr>s3Path := q\<rparr>) = highlightKeys st" "stackKeys (st\<lparr>s3Path := q\<rparr>) = stackKeys st"
  "highlightKeys (st\<lparr>showLoadModal := b\<rparr>) = highlightKeys st" "stackKeys (st\<lparr>showLoadModal := b\<rparr>) = stackKeys st"
  by (simp_all add: highlightKeys_def stackKeys_def prevClick_def nextClick_def handleShowAllInTable_def
       handleShowAllData_def handleViewUpdatedRows_def loadDataset_highlight openDataset_highlight handleClearHighlights_def)

lemma step_subset:
  assumes "highlightKeys st \<subseteq> stackKeys st"
  shows "highlightKeys (step a st) \<subseteq> stackKeys (step a st)"
proof (cases a)
  case (ARunNLQ rnd r p)
  with assms show ?thesis by (auto simp: runNLQ_keys)
next
  case (AUndo r p)
  show ?thesis
  proof (cases "undo_applies r st \<and> highlightStack st \<noteq> []")
    case True
    with assms stackKeys_snoc[of st] show ?thesis unfolding AUndo by (auto simp: handleUndo_keys)
  next
    case False
    with assms show ?thesis unfolding AUndo by (auto simp: handleUndo_keys)
  qed
qed (use assms in \<open>simp_all add: other_keys\<close>)

lemma reachable_subset: "reachable st \<Longrightarrow> highlightKeys st \<subseteq> stackKeys st"
proof (induction rule: reachable.induct)
  case reach_init
  show ?case by (simp add: highlightKeys_def stackKeys_def init_client_def)
next
  case (reach_step st a)
  then show ?case by (simp add: step_subset)
qed

lemma step_equal:
  assumes "highlightKeys st = stackKeys st" "\<not> undo_overlaps a st"
  shows "highlightKeys (step a st) = stackKeys (step a st)"
proof (cases a)
  case (ARunNLQ rnd r p)
  with assms show ?thesis by (simp add: runNLQ_keys)
next
  case (AUndo r p)
  show ?thesis
  proof (cases "undo_applies r st \<and> highlightStack st \<noteq> []")
    case True
    with assms(2) have d: "set (last (highlightStack st)) \<inter> \<Union> (set ` set (butlast (highlightStack st))) = {}"
      by (simp add: undo_overlaps_def AUndo)
    from True assms(1) stackKeys_snoc[of st] d show ?thesis unfolding AUndo
      by (auto simp: handleUndo_keys)
  next
    case False
    with assms show ?thesis unfolding AUndo by (auto simp: handleUndo_keys)
  qed
qed (use assms in \<open>simp_all add: other_keys\<close>)

lemma ex_undone_trace:
  "ex_undone = step (AUndo (Inr ex_undo_resp) (Inr ex_page_resp))
     (step (ARunNLQ 1 (Inr ex_mutation_resp2) (Inr ex_page_resp))
       (step (ARunNLQ 0 (Inr ex_mutation_resp) (Inr ex_page_resp))
         (step (ALoad (Inr ex_load_resp) (Inr ex_page_resp)) init_client)))"
  by (simp add: ex_undone_def ex_mutated_twice_def ex_mutated_def ex_loaded_def)

subsection \<open>C1: the highlight map against the undo stack\<close>

text \<open>
  C1 as stated: in every reachable state the key set of \<open>highlightedCells\<close> equals the union
  of the key lists on \<open>highlightStack\<close>. This fails. Two transformations that both change
  the cell of row 5 in column \<open>age\<close> put the key \<open>5-age\<close> into two stacked operations;
  the undo of the second deletes the key from the map, and the first operation, still on the
  stack, keeps listing it.
\<close>

theorem C1_equality_counterexample:
  "reachable ex_undone \<and> highlightKeys ex_undone \<noteq> stackKeys ex_undone"
proof
  show "reachable ex_undone" unfolding ex_undone_trace by (intro reach_step reach_init)
  show "highlightKeys ex_undone \<noteq> stackKeys ex_undone" by code_simp
qed

text \<open>
  C1 (amended): in every reachable state the key set of \<open>highlightedCells\<close> is contained in
  the union of the key lists on \<open>highlightStack\<close>, so no key is in the map without an owning
  stacked operation. Every transition (load, open, transformation, undo, clearing the highlights,
  paging, overlay changes) carries equality of the two sets over to the next state, except a
  successful undo that pops an operation sharing a key with an operation that stays stacked.
\<close>

theorem C1_highlight_invariant:
  "(reachable st \<longrightarrow> highlightKeys st \<subseteq> stackKeys st) \<and>
   (highlightKeys st = stackKeys st \<and> \<not> undo_overlaps a st \<longrightarrow>
      highlightKeys (step a st) = stackKeys (step a st))"
  using reachable_subset step_equal by blast

theorem C1_highlight_invariant_witness:
  "reachable ex_mutated \<and> highlightKeys ex_mutated \<subseteq> stackKeys ex_mutated \<and>
   highlightKeys ex_mutated = stackKeys ex_mutated \<and>
   \<not> undo_overlaps (AUndo (Inr ex_undo_resp) (Inr ex_page_resp)) ex_mutated \<and>
   highlightKeys (step (AUndo (Inr ex_undo_resp) (Inr ex_page_resp)) ex_mutated) =
     stackKeys (step (AUndo (Inr ex_undo_resp) (Inr ex_page_resp)) ex_mutated)"
proof -
  have "reachable (step (ARunNLQ 0 (Inr ex_mutation_resp) (Inr ex_page_resp))
         (step (ALoad (Inr ex_load_resp) (Inr ex_page_resp)) init_client))"
    by (intro reach_step reach_init)
  then have r: "reachable ex_mutated" by (simp add: ex_mutated_def ex_loaded_def)
  have e: "highlightKeys ex_mutated = stackKeys ex_mutated" by code_simp
  have n: "\<not> undo_overlaps (AUndo (Inr ex_undo_resp) (Inr ex_page_resp)) ex_mutated" by code_simp
  from C1_highlight_invariant[of ex_mutated "AUndo (Inr ex_undo_resp) (Inr ex_page_resp)"] r e n
  show ?thesis by blast
qed

subsection \<open>C3: a successful undo pops one operation\<close>

text \<open>
  C3: in a state with a non-empty \<open>highlightStack\<close>, when \<open>handleUndo\<close> passes its guard and
  receives a response with \<open>success = true\<close>, the stack loses its last element and nothing
  else (so its length drops by exactly one), and \<open>highlightedCells\<close> loses the entries whose
  key is in the popped operation and no others: the remaining entries keep their colour and
  their order. The outcome of the page fetch that follows does not matter.
\<close>

theorem C3_undo_pops_last:
  assumes "truthy_str (datasetId st)" and "truthy_str (session st)"
    and "highlightStack st \<noteq> []" and "u_success data"
  shows "length (highlightStack (handleUndo (Inr data) p st)) + 1 = length (highlightStack st) \<and>
         highlightStack (handleUndo (Inr data) p st) = butlast (highlightStack st) \<and>
         highlightedCells (handleUndo (Inr data) p st) =
           filter (\<lambda>(k, v). k \<notin> set (last (highlightStack st))) (highlightedCells st) \<and>
         highlightKeys (handleUndo (Inr data) p st) =
           highlightKeys st - set (last (highlightStack st))"
proof -
  from assms have a: "undo_applies (Inr data) st" by (simp add: undo_applies_def)
  from a assms(3) show ?thesis
    by (simp add: handleUndo_highlightStack handleUndo_highlightedCells highlightKeys_def
          delete_keys_dom delete_keys_filter [symmetric])
qed

theorem C3_undo_pops_last_witness:
  "truthy_str (datasetId ex_mutated_twice) \<and> truthy_str (session ex_mutated_twice) \<and>
   highlightStack ex_mutated_twice = [[''5-age'', ''7-age''], [''5-age'']] \<and>
   u_success ex_undo_resp \<and>
   highlightStack (handleUndo (Inr ex_undo_resp) (Inr ex_page_resp) ex_mutated_twice)
     = [[''5-age'', ''7-age'']] \<and>
   highlightKeys ex_mutated_twice = {''5-age'', ''7-age''} \<and>
   highlightKeys (handleUndo (Inr ex_undo_resp) (Inr ex_page_resp) ex_mutated_twice) = {''7-age''}"
proof -
  have h1: "truthy_str (datasetId ex_mutated_twice)" by code_simp
  have h2: "truthy_str (session ex_mutated_twice)" by code_simp
  have h3: "highlightStack ex_mutated_twice = [[''5-age'', ''7-age''], [''5-age'']]" by code_simp
  have h4: "u_success ex_undo_resp" by code_simp
  have h5: "highlightKeys ex_mutated_twice = {''5-age'', ''7-age''}" by code_simp
  from h3 have ne: "highlightStack ex_mutated_twice \<noteq> []" by simp
  from C3_undo_pops_last[OF h1 h2 ne h4, of "Inr ex_page_resp"] h1 h2 h3 h4 h5
  show ?thesis by auto
qed

subsection \<open>C8: undo without an established session\<close>

text \<open>
  C8: when \<open>handleUndo\<close> is invoked while \<open>datasetId\<close> or \<open>session\<close> is null (or any other
  falsy value), the resulting state is the old state with the error notice set to
  \<open>No dataset loaded\<close>: no request is issued and no other part of the state changes.
\<close>

theorem C8_undo_without_session:
  assumes "\<not> truthy_str (datasetId st) \<or> \<not> truthy_str (session st)"
  shows "handleUndo resp p st = st\<lparr>error := Some ''No dataset loaded''\<rparr> \<and>
         requests (handleUndo resp p st) = requests st"
  using assms by (auto simp: handleUndo_def)

theorem C8_undo_without_session_witness:
  "datasetId init_client = None \<and> session init_client = None \<and>
   handleUndo (Inr ex_undo_resp) (Inr ex_page_resp) init_client
     = init_client\<lparr>error := Some ''No dataset loaded''\<rparr> \<and>
   requests (handleUndo (Inr ex_undo_resp) (Inr ex_page_resp) init_client) = []"
proof -
  have h: "\<not> truthy_str (datasetId init_client) \<or> \<not> truthy_str (session init_client)"
    by (simp add: init_client_def truthy_str_def)
  have r: "requests init_client = []" by (simp add: init_client_def)
  have n: "datasetId init_client = None" "session init_client = None"
    by (simp_all add: init_client_def)
  from C8_undo_without_session[OF h, of "Inr ex_undo_resp" "Inr ex_page_resp"] n r
  show ?thesis by simp
qed

subsection \<open>C2: what a load or reopen resets\<close>

text \<open>
  C2 says that a successful \<open>loadDataset\<close> or \<open>openDataset\<close> leaves \<open>highlightedCells\<close>,
  \<open>highlightStack\<close>, the updated-row bookkeeping and \<open>messages\<close> empty. Evaluated on the
  session that changed two cells of dataset \<open>d1\<close> and then loads (or reopens) dataset \<open>d2\<close>:
  the transcript is emptied, while the two highlight entries, the stacked operation and the
  updated row ids of \<open>d1\<close> are all still there.
\<close>

theorem C2_load_keeps_highlights:
  "highlightedCells ex_mutated =
     [(''5-age'', ''rgba(255, 182, 193, 0.6)''), (''7-age'', ''rgba(255, 182, 193, 0.6)'')] \<and>
   highlightedCells ex_reloaded = highlightedCells ex_mutated \<and>
   highlightStack ex_reloaded = [[''5-age'', ''7-age'']] \<and>
   updatedRowIds ex_reloaded = [5, 7] \<and>
   messages ex_reloaded = [] \<and>
   datasetId ex_reloaded = Some ''d2'' \<and>
   highlightedCells ex_reopened = highlightedCells ex_mutated \<and>
   highlightStack ex_reopened = [[''5-age'', ''7-age'']] \<and>
   updatedRowIds ex_reopened = [5, 7] \<and>
   messages ex_reopened = []"
  by code_simp

subsection \<open>C4 and C6: what a transformation response does to the overlay code\<close>

text \<open>
  What \<open>runNLQ\<close> leaves alone for every response that is not a mutation (a preview or an
  error): the session, the schema, the window's offset, limit, rows and row count, and the
  highlight bookkeeping; the only request is the transformation request itself. The overlay
  code and the filtered total are overwritten from the response.
\<close>

lemma runNLQ_no_update_frame:
  assumes "truthy_str (session st)" and "\<not> isUpdateOperation data"
  shows "offset (runNLQ rnd (Inr data) p st) = offset st"
    and "limit (runNLQ rnd (Inr data) p st) = limit st"
    and "preview (runNLQ rnd (Inr data) p st) = preview st"
    and "rawPreview (runNLQ rnd (Inr data) p st) = rawPreview st"
    and "rowCount (runNLQ rnd (Inr data) p st) = rowCount st"
    and "session (runNLQ rnd (Inr data) p st) = session st"
    and "columns (runNLQ rnd (Inr data) p st) = columns st"
    and "highlightedCells (runNLQ rnd (Inr data) p st) = highlightedCells st"
    and "highlightStack (runNLQ rnd (Inr data) p st) = highlightStack st"
    and "requests (runNLQ rnd (Inr data) p st)
           = requests st @ [NLQReq (str_or (session st) []) (question st)]"
    and "activeCode (runNLQ rnd (Inr data) p st) = str_or_null (n_code data)"
    and "filteredTotalCount (runNLQ rnd (Inr data) p st) = num_or (n_total_count data) 0"
  using assms by (simp_all add: runNLQ_def nlq_success_def Let_def)

text \<open>
  C4 says that a preview response leaves the overlay code (\<open>activeCode\<close>) at its prior value
  until Show All is clicked. Evaluated on the session that asks a filter question right after
  the load: the response is a preview, the rows and the offset stay, but \<open>activeCode\<close> goes
  from null to the filter, and a click on Next, with no Show All in between, requests the
  second page of the filtered data.
\<close>

theorem C4_preview_sets_overlay:
  "activeCode ex_loaded = None \<and>
   isUpdateOperation ex_preview_resp = False \<and>
   activeCode ex_previewed = Some ''df.filter(age>35)'' \<and>
   preview ex_previewed = preview ex_loaded \<and>
   offset ex_previewed = offset ex_loaded \<and>
   requests (nextClick (Inr ex_page_resp) ex_previewed)
     = requests ex_previewed @ [PageReq ''s1'' 500 500 (Some ''df.filter(age>35)'')]"
  by code_simp

text \<open>
  C6 says that an error response leaves \<open>activeCode\<close> and the filtered total at their prior
  values. Evaluated on the session that applied the filter with Show All and then receives an
  error: the error turn is appended and the filtered rows stay in the table, but \<open>activeCode\<close>
  goes from the filter to null and the filtered total from 37 to 0, and a click on Next
  requests the second page of the unfiltered data.
\<close>

theorem C6_error_resets_overlay:
  "activeCode ex_shown = Some ''df.filter(age>35)'' \<and>
   filteredTotalCount ex_shown = 37 \<and>
   activeCode ex_errored = None \<and>
   filteredTotalCount ex_errored = 0 \<and>
   preview ex_errored = preview ex_shown \<and>
   m_kind (last (messages ex_errored)) = Some KError \<and>
   requests (nextClick (Inr ex_page_resp) ex_errored)
     = requests ex_errored @ [PageReq ''s1'' 500 500 None]"
  by code_simp

subsection \<open>C5: pagination values and the Prev and Next buttons\<close>

text \<open>The integer model of \<open>Math.ceil(a / b)\<close> and \<open>Math.floor(a / b)\<close> against the real quotient.\<close>

lemma js_ceil_div_real: "js_ceil_div a b = \<lceil>real_of_int a / real_of_int b\<rceil>"
  by (simp add: js_ceil_div_def ceiling_divide_eq_div)

lemma js_floor_div_real: "js_floor_div a b = \<lfloor>real_of_int a / real_of_int b\<rfloor>"
  by (simp add: js_floor_div_def floor_divide_of_int_eq)

lemma totalPages_displayed:
  assumes "0 < limit st"
  shows "totalPages st = max 1 (js_ceil_div (displayedTotal st) (limit st))"
proof (cases "rowCount st = 0 \<and> preview st = []")
  case True
  from assms have "(- 1) div limit st = - 1"
    by (simp add: zdiv_eq_0_iff div_eq_minus1 minus_one_div_numeral)
  with True show ?thesis by (simp add: totalPages_def displayedTotal_def js_ceil_div_def)
next
  case False
  then show ?thesis by (auto simp: totalPages_def displayedTotal_def)
qed

text \<open>
  C5 as stated: Prev is disabled if and only if \<open>offset = 0\<close>, and Next if and only if
  \<open>offset + limit >= total\<close>, with \<open>total\<close> the row count held in the state. Both fail.
  While a page request is in flight the \<open>paging\<close> flag disables Prev at offset 500. When the
  server sent 600 rows but no row count, \<open>rowCount\<close> is 0 and \<open>offset + limit >= rowCount\<close>
  holds, yet Next is enabled, because the button falls back to the number of displayed rows.
\<close>

theorem C5_disabled_counterexample:
  "offset ex_paging \<noteq> 0 \<and> prevDisabled ex_paging \<and>
   rowCount ex_uncounted = 0 \<and> offset ex_uncounted + limit ex_uncounted \<ge> rowCount ex_uncounted \<and>
   \<not> paging ex_uncounted \<and> \<not> nextDisabled ex_uncounted"
  by code_simp

text \<open>
  C5 (amended): for every state with a positive \<open>limit\<close>, with \<open>total\<close> read as
  \<open>rowCount\<close>, or the number of displayed rows when \<open>rowCount\<close> is 0:
  \<open>totalPages = max(1, ceil(total / limit))\<close> and \<open>currentPage = floor(offset / limit) + 1\<close>;
  while no page request is in flight, Prev is disabled iff \<open>offset = 0\<close> and Next is disabled
  iff \<open>offset + limit >= total\<close>; while one is in flight, both are disabled. The instance
  that follows the theorem is the state after loading 1000 rows with limit 500: two pages,
  page 1, Prev disabled, Next enabled.
\<close>

theorem C5_pagination:
  assumes "0 < limit st"
  shows "totalPages st = max 1 \<lceil>real_of_int (displayedTotal st) / real_of_int (limit st)\<rceil> \<and>
         currentPage st = \<lfloor>real_of_int (offset st) / real_of_int (limit st)\<rfloor> + 1 \<and>
         (\<not> paging st \<longrightarrow>
            (prevDisabled st \<longleftrightarrow> offset st = 0) \<and>
            (nextDisabled st \<longleftrightarrow> offset st + limit st \<ge> displayedTotal st)) \<and>
         (paging st \<longrightarrow> prevDisabled st \<and> nextDisabled st)"
  using assms
  by (simp add: totalPages_displayed js_ceil_div_real [symmetric] js_floor_div_real [symmetric]
        currentPage_def prevDisabled_def nextDisabled_def displayedTotal_def)

theorem C5_pagination_witness:
  "0 < limit ex_loaded \<and> \<not> paging ex_loaded \<and>
   rowCount ex_loaded = 1000 \<and> limit ex_loaded = 500 \<and> offset ex_loaded = 0 \<and>
   totalPages ex_loaded = 2 \<and> currentPage ex_loaded = 1 \<and>
   prevDisabled ex_loaded \<and> \<not> nextDisabled ex_loaded"
proof -
  have h: "0 < limit ex_loaded" by code_simp
  have a: "\<not> paging ex_loaded" "rowCount ex_loaded = 1000" "limit ex_loaded = 500" "offset ex_loaded = 0"
    by code_simp+
  from a have d: "displayedTotal ex_loaded = 1000" by (simp add: displayedTotal_def)
  from C5_pagination[OF h] h a d show ?thesis by simp
qed

subsection \<open>C7: what a successful page fetch stores\<close>

text \<open>
  C7 as stated: the row count comes from the response and an absent count is treated as
  zero, never replaced by a locally held value. This fails: after loading 1000 rows, a Next
  click answered with rows but no \<open>total\<close> succeeds, moves the offset to 500, and leaves the
  row count at the locally held 1000.
\<close>

theorem C7_rowcount_counterexample:
  "p_total ex_page_no_total = None \<and> rowCount ex_loaded = 1000 \<and>
   error (nextClick (Inr ex_page_no_total) ex_loaded) = None \<and>
   offset (nextClick (Inr ex_page_no_total) ex_loaded) = 500 \<and>
   rowCount (nextClick (Inr ex_page_no_total) ex_loaded) = 1000"
  by code_simp

text \<open>
  C7 (amended): on every successful \<open>fetchPage\<close> response the row slice replaces the window
  wholesale (\<open>rawPreview\<close> is the response's row list, \<open>preview\<close> its stripped copy, an absent
  list counts as empty, nothing of the previous window is merged in) and the offset is the
  requested one. The row count is the response's \<open>total\<close> when that is present and not zero;
  when it is absent or zero the row count is the one held by the render that issued the
  fetch, not zero.
\<close>

theorem C7_fetchPage_success:
  assumes "truthy_str (if truthy_str es then es else session env)"
  shows "rawPreview (fetchPage env noff nlim es co (Inr data) st) = list_or_empty (p_rows data) \<and>
         preview (fetchPage env noff nlim es co (Inr data) st)
           = stripRowId (list_or_empty (p_rows data)) \<and>
         offset (fetchPage env noff nlim es co (Inr data) st) = noff \<and>
         rowCount (fetchPage env noff nlim es co (Inr data) st)
           = (case p_total data of
                None \<Rightarrow> rowCount env
              | Some t \<Rightarrow> if t = 0 then rowCount env else t)"
  using assms
  by (auto simp: fetchPage_def Let_def truthy_str_def num_or_def split: option.splits if_splits)

theorem C7_fetchPage_success_witness:
  "truthy_str (if truthy_str None then None else session ex_previewed) \<and>
   preview (fetchPage ex_previewed 0 (Some 500) None (Some (Some ''df.filter(age>35)''))
              (Inr ex_filtered_page) ex_previewed)
     = [[(''name'', JStr ''bob''), (''age'', JNum 40)]] \<and>
   rawPreview (fetchPage ex_previewed 0 (Some 500) None (Some (Some ''df.filter(age>35)''))
              (Inr ex_filtered_page) ex_previewed)
     = [[(''__row_id'', JNum 7), (''name'', JStr ''bob''), (''age'', JNum 40)]] \<and>
   rowCount ex_previewed = 1000 \<and>
   rowCount (fetchPage ex_previewed 0 (Some 500) None (Some (Some ''df.filter(age>35)''))
              (Inr ex_filtered_page) ex_previewed) = 37"
proof -
  have h: "truthy_str (if truthy_str None then None else session ex_previewed)" by code_simp
  have r: "rowCount ex_previewed = 1000" by code_simp
  have d: "p_total ex_filtered_page = Some 37"
    "list_or_empty (p_rows ex_filtered_page) = [[(''__row_id'', JNum 7), (''name'', JStr ''bob''), (''age'', JNum 40)]]"
    "stripRowId (list_or_empty (p_rows ex_filtered_page)) = [[(''name'', JStr ''bob''), (''age'', JNum 40)]]"
    by code_simp+
  from C7_fetchPage_success[OF h, of 0 "Some 500" "Some (Some ''df.filter(age>35)'')" ex_filtered_page ex_previewed]
    h r d
  show ?thesis by simp
qed

subsection \<open>C9: the Show All button of older preview turns\<close>

text \<open>Every transition either empties the transcript (a load or open) or appends to it.\<close>

lemma messages_step:
  "messages (step a st) = [] \<or> (\<exists>extra. messages (step a st) = messages st @ extra)"
proof (cases a)
  case (ALoad r p)
  then show ?thesis
    by (simp add: loadDataset_def establish_success_def Let_def split: sum.splits)
next
  case (AOpen i r p)
  then show ?thesis
    by (simp add: openDataset_def establish_success_def Let_def split: sum.splits)
next
  case (ARunNLQ rnd r p)
  then show ?thesis
    by (simp add: runNLQ_def nlq_success_def apply_update_def Let_def split: sum.splits list.splits)
next
  case (AUndo r p)
  then show ?thesis
    by (simp add: handleUndo_def undo_success_def Let_def split: sum.splits)
qed (simp_all add: prevClick_def nextClick_def handleShowAllInTable_def handleShowAllData_def
       handleViewUpdatedRows_def handleClearHighlights_def)

text \<open>
  C9: for a turn of the transcript that shows a Show All button (a preview turn with a
  positive total count), the button is enabled if and only if the turn is the last of the
  transcript. Once any turns are appended after it, the turn is unchanged and its button is
  disabled, however many more are appended; and no transition does anything to the
  transcript other than appending to it or (on load and open) emptying it. The instance
  that follows the theorem is a preview with a total count of 37, enabled when it arrives and disabled after the next
  question.
\<close>

theorem C9_show_all_only_on_last:
  assumes "idx < length msgs" and "showAllRendered (msgs ! idx)"
  shows "(\<not> showAllDisabled msgs idx \<longleftrightarrow> idx = length msgs - 1) \<and>
         (\<forall>extra. extra \<noteq> [] \<longrightarrow>
            (msgs @ extra) ! idx = msgs ! idx \<and> showAllDisabled (msgs @ extra) idx) \<and>
         (messages (step a st) = [] \<or> (\<exists>extra. messages (step a st) = messages st @ extra))"
proof -
  from assms(1) have 1: "\<not> showAllDisabled msgs idx \<longleftrightarrow> idx = length msgs - 1"
    by (auto simp: showAllDisabled_def)
  have 2: "(msgs @ extra) ! idx = msgs ! idx \<and> showAllDisabled (msgs @ extra) idx"
    if "extra \<noteq> []" for extra :: "message list"
  proof -
    from that have "0 < length extra" by simp
    with assms(1) have "int idx \<noteq> int (length msgs) + int (length extra) - 1" by arith
    with assms(1) show ?thesis by (simp add: showAllDisabled_def nth_append)
  qed
  from 1 2 messages_step show ?thesis by blast
qed

theorem C9_show_all_only_on_last_witness:
  "1 < length (messages ex_previewed) \<and> showAllRendered (messages ex_previewed ! 1) \<and>
   m_totalCount (messages ex_previewed ! 1) = Some 37 \<and>
   \<not> showAllDisabled (messages ex_previewed) 1 \<and>
   length (messages ex_errored) = 4 \<and>
   messages ex_errored ! 1 = messages ex_previewed ! 1 \<and>
   showAllDisabled (messages ex_errored) 1"
proof -
  have h1: "1 < length (messages ex_previewed)" by code_simp
  have h2: "showAllRendered (messages ex_previewed ! 1)" by code_simp
  have h3: "m_totalCount (messages ex_previewed ! 1) = Some 37" by code_simp
  have h4: "length (messages ex_previewed) = 2" by code_simp
  have h5: "length (messages ex_errored) = 4" by code_simp
  have h6: "messages ex_errored = messages ex_previewed @ drop 2 (messages ex_errored)" by code_simp
  from h5 have h7: "drop 2 (messages ex_errored) \<noteq> []" by simp
  from C9_show_all_only_on_last[OF h1 h2] h4
  have a: "\<not> showAllDisabled (messages ex_previewed) 1" by simp
  from C9_show_all_only_on_last[OF h1 h2] h7
  have b: "(messages ex_previewed @ drop 2 (messages ex_errored)) ! 1 = messages ex_previewed ! 1 \<and>
           showAllDisabled (messages ex_previewed @ drop 2 (messages ex_errored)) 1"
    by blast
  from a b h1 h2 h3 h5 h6 show ?thesis by simp
qed

subsection \<open>C10: stripping the row id before display\<close>

lemma stripRowId_filter:
  "stripRowId rows = map (filter (\<lambda>(k, v). k \<noteq> ''__row_id'')) rows"
proof -
  have "(\<lambda>(k', _ :: jsval). ''__row_id'' \<noteq> k') = (\<lambda>(k, v). k \<noteq> ''__row_id'')" by auto
  then show ?thesis by (simp add: stripRowId_def AList.delete_eq)
qed

lemma stripColumns_filter:
  "stripColumns cols = filter (\<lambda>(k, t). k \<noteq> ''__row_id'') cols"
proof -
  have "(\<lambda>(k', _ :: string). ''__row_id'' \<noteq> k') = (\<lambda>(k, v). k \<noteq> ''__row_id'')" by auto
  then show ?thesis by (simp add: stripColumns_def AList.delete_eq)
qed

lemma stripRowId_lookup:
  "map (\<lambda>r. map_of r k) (stripRowId rows)
     = map (\<lambda>r. if k = ''__row_id'' then None else map_of r k) rows"
  by (simp add: stripRowId_def delete_conv')

lemma stripColumns_no_row_id: "''__row_id'' \<notin> fst ` set (stripColumns cols)"
  by (simp add: stripColumns_def delete_notin_dom)

lemma fetchPage_columns [simp]:
  "columns (fetchPage env noff nlim es co resp st) = columns st"
  by (simp add: fetchPage_def Let_def split: option.splits sum.splits)

lemma fetchPage_view:
  "preview st = stripRowId (rawPreview st) \<Longrightarrow>
   preview (fetchPage env noff nlim es co resp st)
     = stripRowId (rawPreview (fetchPage env noff nlim es co resp st))"
  by (simp add: fetchPage_def Let_def split: option.splits sum.splits)

lemma establish_view:
  "preview (establish_success env d p st) = stripRowId (rawPreview (establish_success env d p st))"
  "columns (establish_success env d p st) = stripColumns (list_or_empty (l_columns d))"
  by (simp_all add: establish_success_def Let_def fetchPage_view)

lemma step_view:
  assumes "preview st = stripRowId (rawPreview st)" and "''__row_id'' \<notin> fst ` set (columns st)"
  shows "preview (step a st) = stripRowId (rawPreview (step a st)) \<and>
         ''__row_id'' \<notin> fst ` set (columns (step a st))"
proof (cases a)
  case (ALoad r p)
  with assms show ?thesis
    by (simp add: loadDataset_def Let_def establish_view stripColumns_no_row_id split: sum.splits)
next
  case (AOpen i r p)
  with assms show ?thesis
    by (simp add: openDataset_def Let_def establish_view stripColumns_no_row_id split: sum.splits)
next
  case (ARunNLQ rnd r p)
  with assms show ?thesis
    by (simp add: runNLQ_def nlq_success_def apply_update_def Let_def fetchPage_view
          split: sum.splits list.splits)
next
  case (AUndo r p)
  with assms show ?thesis
    by (simp add: handleUndo_def undo_success_def Let_def fetchPage_view stripColumns_no_row_id
          split: sum.splits)
qed (use assms in \<open>simp_all add: prevClick_def nextClick_def handleShowAllInTable_def
       handleShowAllData_def handleViewUpdatedRows_def handleClearHighlights_def fetchPage_view\<close>)

lemma reachable_view:
  "reachable st \<Longrightarrow>
   preview st = stripRowId (rawPreview st) \<and> ''__row_id'' \<notin> fst ` set (columns st)"
proof (induction rule: reachable.induct)
  case reach_init
  show ?case by (simp add: init_client_def stripRowId_def)
next
  case (reach_step st a)
  then show ?case using step_view by blast
qed

lemma response_columns:
  "columns (loadDataset (Inr ld) p st) = stripColumns (list_or_empty (l_columns ld))"
  "columns (openDataset i (Inr ld) p st) = stripColumns (list_or_empty (l_columns ld))"
  "undo_applies (Inr ud) st \<Longrightarrow>
     columns (handleUndo (Inr ud) p st) = stripColumns (list_or_empty (u_columns ud))"
  by (simp_all add: loadDataset_def openDataset_def handleUndo_def undo_success_def
        undo_applies_def Let_def establish_view)

lemma response_rows:
  "rawPreview (loadDataset (Inr ld) (Inl msg) st) = list_or_empty (l_preview ld)"
  "rawPreview (openDataset i (Inr ld) (Inl msg) st) = list_or_empty (l_preview ld)"
  "undo_applies (Inr ud) st \<Longrightarrow>
     rawPreview (handleUndo (Inr ud) (Inl msg) st) = list_or_empty (u_preview ud)"
  "truthy_str (if truthy_str es then es else session env) \<Longrightarrow>
     rawPreview (fetchPage env noff nlim es co (Inr pd) st) = list_or_empty (p_rows pd)"
  by (auto simp add: loadDataset_def openDataset_def handleUndo_def undo_success_def
        establish_success_def fetchPage_def undo_applies_def Let_def truthy_str_def
        split: option.splits)

text \<open>
  C10: \<open>stripRowId\<close> removes the \<open>__row_id\<close> field from each row and \<open>stripColumns\<close> removes
  it from the schema; every other key keeps its value and its place. In every reachable
  state the displayed rows are the stripped copy of \<open>rawPreview\<close>, which holds the rows as
  the server sent them, and the displayed schema has no \<open>__row_id\<close>. The schema of a load,
  open or undo response is stored stripped; the rows of a page response are stored
  unstripped in \<open>rawPreview\<close>, and so are the rows of a load, open or undo response until
  the page fetch that follows replaces them.
\<close>

theorem C10_strip_row_id:
  "stripRowId rows = map (filter (\<lambda>(k, v). k \<noteq> ''__row_id'')) rows \<and>
   map (\<lambda>r. map_of r k) (stripRowId rows)
     = map (\<lambda>r. if k = ''__row_id'' then None else map_of r k) rows \<and>
   stripColumns cols = filter (\<lambda>(k, t). k \<noteq> ''__row_id'') cols \<and>
   (reachable st \<longrightarrow>
      preview st = stripRowId (rawPreview st) \<and> ''__row_id'' \<notin> fst ` set (columns st)) \<and>
   columns (loadDataset (Inr ld) p st) = stripColumns (list_or_empty (l_columns ld)) \<and>
   columns (openDataset i (Inr ld) p st) = stripColumns (list_or_empty (l_columns ld)) \<and>
   (undo_applies (Inr ud) st \<longrightarrow>
      columns (handleUndo (Inr ud) p st) = stripColumns (list_or_empty (u_columns ud))) \<and>
   rawPreview (loadDataset (Inr ld) (Inl msg) st) = list_or_empty (l_preview ld) \<and>
   rawPreview (openDataset i (Inr ld) (Inl msg) st) = list_or_empty (l_preview ld) \<and>
   (undo_applies (Inr ud) st \<longrightarrow>
      rawPreview (handleUndo (Inr ud) (Inl msg) st) = list_or_empty (u_preview ud)) \<and>
   (truthy_str (if truthy_str es then es else session env) \<longrightarrow>
      rawPreview (fetchPage env noff nlim es co (Inr pd) st) = list_or_empty (p_rows pd))"
proof (intro conjI impI)
  show "stripRowId rows = map (filter (\<lambda>(k, v). k \<noteq> ''__row_id'')) rows"
    by (rule stripRowId_filter)
  show "map (\<lambda>r. map_of r k) (stripRowId rows)
          = map (\<lambda>r. if k = ''__row_id'' then None else map_of r k) rows"
    by (rule stripRowId_lookup)
  show "stripColumns cols = filter (\<lambda>(k, t). k \<noteq> ''__row_id'') cols"
    by (rule stripColumns_filter)
qed (simp_all add: reachable_view response_columns response_rows)

theorem C10_strip_row_id_witness:
  "reachable ex_undone \<and> undo_applies (Inr ex_undo_resp) ex_mutated_twice \<and>
   rawPreview ex_undone = ex_rows \<and>
   preview ex_undone =
     [[(''name'', JStr ''ann''), (''age'', JNum 30)], [(''name'', JStr ''bob''), (''age'', JNum 40)]] \<and>
   columns ex_undone = [(''name'', ''String''), (''age'', ''Int64'')] \<and>
   truthy_str (if truthy_str None then None else session ex_loaded) \<and>
   rawPreview (nextClick (Inr ex_page_resp_other) ex_loaded)
     = [[(''__row_id'', JNum 5), (''city'', JStr ''oslo''), (''age'', JNum 61)]]"
proof -
  have "reachable (step (AUndo (Inr ex_undo_resp) (Inr ex_page_resp))
        (step (ARunNLQ 1 (Inr ex_mutation_resp2) (Inr ex_page_resp))
          (step (ARunNLQ 0 (Inr ex_mutation_resp) (Inr ex_page_resp))
            (step (ALoad (Inr ex_load_resp) (Inr ex_page_resp)) init_client))))"
    by (intro reach_step reach_init)
  then have r: "reachable ex_undone"
    by (simp add: ex_undone_def ex_mutated_twice_def ex_mutated_def ex_loaded_def)
  have u: "undo_applies (Inr ex_undo_resp) ex_mutated_twice" by code_simp
  have t: "truthy_str (if truthy_str None then None else session ex_loaded)" by code_simp
  have raw: "rawPreview ex_undone = ex_rows" by code_simp
  have s: "stripRowId ex_rows =
     [[(''name'', JStr ''ann''), (''age'', JNum 30)], [(''name'', JStr ''bob''), (''age'', JNum 40)]]"
    by code_simp
  have c: "stripColumns (list_or_empty (u_columns ex_undo_resp)) = [(''name'', ''String''), (''age'', ''Int64'')]"
    by code_simp
  have pr: "list_or_empty (p_rows ex_page_resp_other)
              = [[(''__row_id'', JNum 5), (''city'', JStr ''oslo''), (''age'', JNum 61)]]"
    by code_simp
  note w1 = C10_strip_row_id[where st = ex_undone]
  note w2 = C10_strip_row_id[where st = ex_mutated_twice and ud = ex_undo_resp and p = "Inr ex_page_resp"]
  note w3 = C10_strip_row_id[where env = ex_loaded and st = ex_loaded and es = None and pd = ex_page_resp_other
              and noff = "offset ex_loaded + limit ex_loaded" and nlim = None and co = None]
  from w1 r have a: "preview ex_undone = stripRowId (rawPreview ex_undone)" by blast
  from w2 u have b: "columns (handleUndo (Inr ex_undo_resp) (Inr ex_page_resp) ex_mutated_twice)
      = stripColumns (list_or_empty (u_columns ex_undo_resp))" by blast
  from w3 t have d: "rawPreview (nextClick (Inr ex_page_resp_other) ex_loaded) = list_or_empty (p_rows ex_page_resp_other)"
    unfolding nextClick_def by blast
  from a b d r u t raw s c pr show ?thesis by (simp add: ex_undone_def)
qed

end
